theory Spec2Isabelle
  imports Complex_Main "HOL-Library.Sublist"
begin

section \<open>Python strings\<close>

text \<open>
  A Python \<open>str\<close> is a sequence of Unicode code points. It is modelled as the list of
  its code points, so that the characters beyond ASCII in the source's literals
  (U+1F4FD, U+FE0F, U+2019) and the Unicode whitespace removed by \<open>str.strip\<close> are what
  they are in Python. \<open>py\<close> turns an ASCII literal into that list. Concatenation \<open>+\<close>
  is \<open>@\<close>, the empty string is \<open>[]\<close>, and \<open>a in b\<close> on strings is \<open>sublist a b\<close>.
\<close>

type_synonym pystr = "nat list"

definition py :: "string \<Rightarrow> pystr" where
  "py s = map of_char s"

text \<open>\<open>str(n)\<close> of an integer: its decimal digits, with a minus sign when negative.\<close>

fun str_nat :: "nat \<Rightarrow> pystr" where
  "str_nat n = (if n < 10 then [48 + n] else str_nat (n div 10) @ [48 + n mod 10])"

declare str_nat.simps [simp del]

definition str_int :: "int \<Rightarrow> pystr" where
  "str_int i = (if i < 0 then 45 # str_nat (nat (- i)) else str_nat (nat i))"

text \<open>
  \<open>s.split(sep)\<close> for a non-empty separator: a scan from the left that cuts at every
  occurrence of \<open>sep\<close> and resumes behind it. \<open>cur\<close> is the piece being collected.
  Python raises ValueError for an empty separator; the two call sites pass the
  literals \<open>"v="\<close> and \<open>","\<close>.
\<close>

fun split_go :: "pystr \<Rightarrow> pystr \<Rightarrow> pystr \<Rightarrow> pystr list" where
  "split_go sep cur [] = [cur]"
| "split_go sep cur (c # cs) =
     (if prefix sep (c # cs) then cur # split_go sep [] (drop (length sep - 1) cs)
      else split_go sep (cur @ [c]) cs)"

definition py_split :: "pystr \<Rightarrow> pystr \<Rightarrow> pystr list" where
  "py_split s sep = split_go sep [] s"

text \<open>\<open>sep.join(parts)\<close>.\<close>

fun py_join :: "pystr \<Rightarrow> pystr list \<Rightarrow> pystr" where
  "py_join sep [] = []"
| "py_join sep [x] = x"
| "py_join sep (x # y # ys) = x @ sep @ py_join sep (y # ys)"

text \<open>\<open>str.isspace\<close> on one code point, and \<open>s.strip()\<close>.\<close>

definition py_isspace :: "nat \<Rightarrow> bool" where
  "py_isspace c =
     ((9 \<le> c \<and> c \<le> 13) \<or> (28 \<le> c \<and> c \<le> 32) \<or> c = 133 \<or> c = 160 \<or> c = 5760 \<or>
      (8192 \<le> c \<and> c \<le> 8202) \<or> c = 8232 \<or> c = 8233 \<or> c = 8239 \<or> c = 8287 \<or> c = 12288)"

definition py_strip :: "pystr \<Rightarrow> pystr" where
  "py_strip s = rev (dropWhile py_isspace (rev (dropWhile py_isspace s)))"

section \<open>The world outside the program\<close>

text \<open>
  What \<open>requests\<close> hands back for a request that got an answer: the status line, the
  URL and the decoded body.
\<close>

record response =
  status_code :: int
  reason :: pystr
  resp_url :: pystr
  resp_text :: pystr

text \<open>
  Exceptions, each with its message \<open>str(e)\<close>. All of them are subclasses of
  \<open>Exception\<close>, which is what the handlers of the program catch. \<open>Raised\<close> stands for
  whatever a remote call raises (no connection, malformed URL, no captions, a
  service error).
\<close>

datatype exn = HTTPError pystr | Raised pystr

fun str_exn :: "exn \<Rightarrow> pystr" where
  "str_exn (HTTPError m) = m"
| "str_exn (Raised m) = m"

text \<open>One caption segment of the transcript service; only its text field is read.\<close>

datatype segment = Segment (seg_text: pystr)

text \<open>The JSON object given to \<open>requests.post(..., json=payload)\<close>: its fields in order.\<close>

type_synonym payload = "(pystr \<times> pystr) list"

text \<open>
  Everything the program does to the outside, in the order it does it: what it shows
  through Streamlit and which remote calls it makes, with their arguments.
\<close>

datatype event =
    St_warning pystr
  | St_error pystr
  | St_write pystr
  | St_write_embedding pystr "real list"
  | St_write_answer pystr pystr
  | St_success pystr
  | St_subheader pystr
  | St_markdown pystr
  | St_spinner pystr
  | Call_get_transcript pystr
  | Call_requests_get pystr
  | Call_requests_post pystr payload
  | Call_generate_content pystr "pystr list"
  | Call_embed_content pystr pystr

text \<open>
  The remote services and the configuration. A remote call either raises or returns,
  and its answer may differ from one call to the next: every service reads the number
  of remote calls made before it (the \<open>clock\<close> of the world).
\<close>

record env =
  get_transcript :: "nat \<Rightarrow> pystr \<Rightarrow> exn + segment list"
  requests_get :: "nat \<Rightarrow> pystr \<Rightarrow> exn + response"
  requests_post :: "nat \<Rightarrow> pystr \<Rightarrow> payload \<Rightarrow> exn + response"
  generate_content :: "nat \<Rightarrow> pystr \<Rightarrow> pystr list \<Rightarrow> exn + pystr"
  embed_content :: "nat \<Rightarrow> pystr \<Rightarrow> pystr \<Rightarrow> exn + real list"
  TEAMS_WEBHOOK_URL :: pystr

text \<open>
  The state the program runs in: the clock, the events so far, and
  \<open>st.session_state.summary\<close> (\<open>None\<close> while the key is not set).
\<close>

record world =
  clock :: nat
  trace :: "event list"
  summary :: "pystr option"

definition st :: "event \<Rightarrow> world \<Rightarrow> world" where
  "st e w = w\<lparr>trace := trace w @ [e]\<rparr>"

definition remote :: "event \<Rightarrow> world \<Rightarrow> world" where
  "remote e w = w\<lparr>clock := Suc (clock w), trace := trace w @ [e]\<rparr>"

text \<open>
  \<open>Response.raise_for_status\<close> of the \<open>requests\<close> library: it raises HTTPError for a
  status from 400 to 599 and returns for every other status.
\<close>

definition raise_for_status :: "response \<Rightarrow> exn + unit" where
  "raise_for_status resp =
     (if 400 \<le> status_code resp \<and> status_code resp < 500 then
        Inl (HTTPError (str_int (status_code resp) @ py '' Client Error: '' @ reason resp
                        @ py '' for url: '' @ resp_url resp))
      else if 500 \<le> status_code resp \<and> status_code resp < 600 then
        Inl (HTTPError (str_int (status_code resp) @ py '' Server Error: '' @ reason resp
                        @ py '' for url: '' @ resp_url resp))
      else Inr ())"

section \<open>app.py\<close>

definition PROMPT_HEADER :: pystr where
  "PROMPT_HEADER = py (
     ''You are a professional video summarizer. You will be provided with multiple video transcripts.\<newline>'' @
     ''Summarize the overall combined insights from all these videos together in clear bullet points within 350 words.\<newline>'' @
     ''Include:\<newline>'' @
     ''- Key highlights from each video\<newline>'' @
     ''- Common themes/topics discussed\<newline>'' @
     ''- Speaker-specific important notes if available\<newline>'' @
     ''- Any contrasts or different viewpoints between videos\<newline>'' @
     ''- A final 2-line overall takeaway conclusion.\<newline>'' @
     ''\<newline>'' @
     ''Here are the combined transcripts: \<newline>'')"

subsection \<open>Transcript extraction\<close>

definition video_id :: "pystr \<Rightarrow> pystr" where
  "video_id youtube_url = last (py_split youtube_url (py ''v=''))"

definition extract_transcript :: "env \<Rightarrow> pystr \<Rightarrow> world \<Rightarrow> (exn + pystr) \<times> world" where
  "extract_transcript env youtube_url w =
     (let w' = remote (Call_get_transcript (video_id youtube_url)) w in
      case get_transcript env (clock w) (video_id youtube_url) of
        Inl e \<Rightarrow> (Inl e, w')
      | Inr segments \<Rightarrow> (Inr (py_join (py '' '') (map seg_text segments)), w'))"

definition fetch_transcript :: "env \<Rightarrow> pystr \<Rightarrow> world \<Rightarrow> (exn + pystr) \<times> world" where
  "fetch_transcript env source w =
     (if sublist (py ''youtube.com'') source then extract_transcript env source w
      else
        let w' = remote (Call_requests_get source) w in
        case requests_get env (clock w) source of
          Inl e \<Rightarrow> (Inl e, w')
        | Inr resp \<Rightarrow>
            (case raise_for_status resp of
               Inl e \<Rightarrow> (Inl e, w')
             | Inr _ \<Rightarrow> (Inr (resp_text resp), w')))"

subsection \<open>Summarization, embedding, Teams, chatbot\<close>

definition generate_summary :: "env \<Rightarrow> pystr \<Rightarrow> world \<Rightarrow> (exn + pystr) \<times> world" where
  "generate_summary env combined_transcript w =
     (generate_content env (clock w) (py ''gemini-2.0-flash'') [PROMPT_HEADER @ combined_transcript],
      remote (Call_generate_content (py ''gemini-2.0-flash'') [PROMPT_HEADER @ combined_transcript]) w)"

definition generate_embedding :: "env \<Rightarrow> pystr \<Rightarrow> world \<Rightarrow> (exn + real list) \<times> world" where
  "generate_embedding env transcript w =
     (embed_content env (clock w) (py ''gemini-embedding-exp-03-07'') transcript,
      remote (Call_embed_content (py ''gemini-embedding-exp-03-07'') transcript) w)"

definition teams_payload :: "pystr \<Rightarrow> payload" where
  "teams_payload summary_text =
     [(py ''text'',
       py ''**'' @ [0x1F4FD, 0xFE0F] @ py '' Combined Video Summary**\<newline>\<newline>'' @ summary_text)]"

definition post_to_teams :: "env \<Rightarrow> pystr \<Rightarrow> world \<Rightarrow> (exn + unit) \<times> world" where
  "post_to_teams env summary_text w =
     (let w' = remote (Call_requests_post (TEAMS_WEBHOOK_URL env) (teams_payload summary_text)) w in
      case requests_post env (clock w) (TEAMS_WEBHOOK_URL env) (teams_payload summary_text) of
        Inl e \<Rightarrow> (Inl e, w')
      | Inr resp \<Rightarrow>
          (Inr (),
           if status_code resp \<noteq> 200
           then st (St_error (py ''Teams webhook failed: '' @ resp_text resp)) w'
           else w'))"

definition chatbot_prompt :: "pystr \<Rightarrow> pystr \<Rightarrow> pystr" where
  "chatbot_prompt summary_text question =
     py ''You are an assistant. Based on the following video summary, answer the user''
     @ [0x2019] @ py ''s question clearly and briefly.\<newline>\<newline>Video Summary:\<newline>''
     @ summary_text
     @ py ''\<newline>\<newline>User Question:\<newline>''
     @ question
     @ py ''\<newline>\<newline>Answer:''"

definition ask_chatbot :: "env \<Rightarrow> pystr \<Rightarrow> pystr \<Rightarrow> world \<Rightarrow> (exn + pystr) \<times> world" where
  "ask_chatbot env summary_text question w =
     (generate_content env (clock w) (py ''gemini-2.0-flash'') [chatbot_prompt summary_text question],
      remote (Call_generate_content (py ''gemini-2.0-flash'') [chatbot_prompt summary_text question]) w)"

subsection \<open>The Streamlit script\<close>

text \<open>Line 110: the comma-separated input, each piece stripped, the empty ones dropped.\<close>

definition parse_urls :: "pystr \<Rightarrow> pystr list" where
  "parse_urls urls_input =
     map py_strip (filter (\<lambda>u. py_strip u \<noteq> []) (py_split urls_input (py '','')))"

text \<open>
  Lines 113 to 119: the loop over \<open>enumerate(urls, 1)\<close>, with \<open>n = len(urls)\<close> and the
  document collected so far.
\<close>

fun fetch_loop :: "env \<Rightarrow> int \<Rightarrow> int \<Rightarrow> pystr list \<Rightarrow> pystr \<Rightarrow> world \<Rightarrow> pystr \<times> world" where
  "fetch_loop env n idx [] combined_transcript w = (combined_transcript, w)"
| "fetch_loop env n idx (url # rest) combined_transcript w =
     (let w1 = st (St_write (py ''Fetching transcript '' @ str_int idx @ py '' of '' @ str_int n)) w in
      case fetch_transcript env url w1 of
        (Inr t, w2) \<Rightarrow>
          fetch_loop env n (idx + 1) rest
            (combined_transcript @ (py ''\<newline>\<newline>=== Transcript '' @ str_int idx @ py '' ===\<newline>'' @ t)) w2
      | (Inl e, w2) \<Rightarrow>
          fetch_loop env n (idx + 1) rest (combined_transcript @ [])
            (st (St_error (py ''Error fetching transcript for '' @ url @ py '': '' @ str_exn e)) w2))"

text \<open>Lines 111 to 119.\<close>

definition aggregate :: "env \<Rightarrow> pystr list \<Rightarrow> world \<Rightarrow> pystr \<times> world" where
  "aggregate env urls w =
     fetch_loop env (int (length urls)) 1 urls []
       (st (St_spinner (py ''Fetching transcripts for '' @ str_int (int (length urls)) @ py '' video(s)...'')) w)"

text \<open>Lines 128 to 130.\<close>

definition post_step :: "env \<Rightarrow> bool \<Rightarrow> pystr \<Rightarrow> world \<Rightarrow> (exn + unit) \<times> world" where
  "post_step env post_to_teams_checkbox summary_text w =
     (if post_to_teams_checkbox then
        (case post_to_teams env summary_text w of
           (Inl e, w') \<Rightarrow> (Inl e, w')
         | (Inr _, w') \<Rightarrow> (Inr (), st (St_success (py ''Summary posted to Microsoft Teams!'')) w'))
      else (Inr (), w))"

text \<open>Lines 123 to 125: the summary is shown.\<close>

definition show_summary :: "pystr \<Rightarrow> world \<Rightarrow> world" where
  "show_summary summary_text w =
     st (St_success (py ''Summary generated successfully!''))
       (st (St_write summary_text)
         (st (St_subheader (py ''Combined Detailed Notes'')) w))"

text \<open>Lines 122 to 137: the body of the \<open>try\<close>.\<close>

definition summary_try :: "env \<Rightarrow> pystr \<Rightarrow> bool \<Rightarrow> world \<Rightarrow> (exn + unit) \<times> world" where
  "summary_try env combined_transcript post_to_teams_checkbox w =
     (case generate_summary env combined_transcript w of
        (Inl e, w1) \<Rightarrow> (Inl e, w1)
      | (Inr summary_text, w1) \<Rightarrow>
          (case post_step env post_to_teams_checkbox summary_text (show_summary summary_text w1) of
             (Inl e, w3) \<Rightarrow> (Inl e, w3)
           | (Inr _, w3) \<Rightarrow>
               (case generate_embedding env combined_transcript w3 of
                  (Inl e, w4) \<Rightarrow> (Inl e, w4)
                | (Inr embedding, w4) \<Rightarrow>
                    (Inr (),
                     (st (St_write_embedding (py ''Embedding (first 5 dims):'') (take 5 embedding)) w4)
                       \<lparr>summary := Some summary_text\<rparr>))))"

text \<open>Lines 120 to 139: the \<open>try\<close> with its \<open>except Exception\<close>.\<close>

definition summarize_section :: "env \<Rightarrow> pystr \<Rightarrow> bool \<Rightarrow> world \<Rightarrow> world" where
  "summarize_section env combined_transcript post_to_teams_checkbox w =
     (case summary_try env combined_transcript post_to_teams_checkbox
             (st (St_spinner (py ''Generating combined summary...'')) w) of
        (Inl e, w') \<Rightarrow> st (St_error (py ''Error generating summary: '' @ str_exn e)) w'
      | (Inr _, w') \<Rightarrow> w')"

text \<open>Lines 107 to 139: what a click on "Generate Combined Summary" runs.\<close>

definition generate_clicked :: "env \<Rightarrow> pystr \<Rightarrow> bool \<Rightarrow> world \<Rightarrow> world" where
  "generate_clicked env urls_input post_to_teams_checkbox w =
     (if urls_input = [] then st (St_warning (py ''Please enter at least one URL.'')) w
      else
        case aggregate env (parse_urls urls_input) w of
          (combined_transcript, w') \<Rightarrow>
            summarize_section env combined_transcript post_to_teams_checkbox w')"

text \<open>
  Lines 142 to 152: the chatbot part of the script, shown when the box is ticked and
  a non-empty summary is stored; \<open>ask_bot\<close> is the click on "Ask Bot".
\<close>

definition chatbot_section :: "env \<Rightarrow> bool \<Rightarrow> pystr \<Rightarrow> bool \<Rightarrow> world \<Rightarrow> world" where
  "chatbot_section env enable_chatbot question ask_bot w =
     (case summary w of
        None \<Rightarrow> w
      | Some s \<Rightarrow>
          if enable_chatbot \<and> s \<noteq> [] then
            (let w1 = st (St_subheader (py ''Chatbot Q&A'')) (st (St_markdown (py ''---'')) w) in
             if ask_bot \<and> question \<noteq> [] then
               (case ask_chatbot env s question (st (St_spinner (py ''Bot is thinking...'')) w1) of
                  (Inl e, w2) \<Rightarrow> st (St_error (py ''Error in chatbot response: '' @ str_exn e)) w2
                | (Inr answer, w2) \<Rightarrow> st (St_write_answer (py ''**Answer:**'') answer) w2)
             else w1)
          else w)"

text \<open>The outcome of fetching \<open>source\<close> when \<open>k\<close> remote calls have been made before.\<close>

definition fetch_outcome :: "env \<Rightarrow> nat \<Rightarrow> pystr \<Rightarrow> exn + pystr" where
  "fetch_outcome env k source = fst (fetch_transcript env source \<lparr>clock = k, trace = [], summary = None\<rparr>)"

subsection \<open>Concrete worlds\<close>

text \<open>
  A world in which every service answers: any URL but \<open>http://b/t\<close> serves the text
  "Hello world", the model answers "S", the webhook accepts the post.
\<close>

definition env_ok :: env where
  "env_ok =
     \<lparr>get_transcript = (\<lambda>k v. Inr [Segment (py ''hi''), Segment (py ''there'')]),
      requests_get = (\<lambda>k u. if u = py ''http://b/t'' then Inl (Raised (py ''no route to host''))
                             else Inr \<lparr>status_code = 200, reason = py ''OK'', resp_url = u,
                                       resp_text = py ''Hello world''\<rparr>),
      requests_post = (\<lambda>k u p. Inr \<lparr>status_code = 200, reason = py ''OK'', resp_url = u,
                                      resp_text = py ''1''\<rparr>),
      generate_content = (\<lambda>k m c. Inr (py ''S'')),
      embed_content = (\<lambda>k m c. Inr []),
      TEAMS_WEBHOOK_URL = py ''https://hook''\<rparr>"

text \<open>The same world with one service changed.\<close>

definition env_300 :: env where
  "env_300 = env_ok
     \<lparr>requests_get := (\<lambda>k u. Inr \<lparr>status_code = 300, reason = py ''Multiple Choices'', resp_url = u,
                                    resp_text = py ''pick one''\<rparr>)\<rparr>"

definition env_404 :: env where
  "env_404 = env_ok
     \<lparr>requests_get := (\<lambda>k u. Inr \<lparr>status_code = 404, reason = py ''Not Found'', resp_url = u,
                                    resp_text = py ''gone''\<rparr>)\<rparr>"

definition env_all_down :: env where
  "env_all_down = env_ok\<lparr>requests_get := (\<lambda>k u. Inl (Raised (py ''timed out'')))\<rparr>"

definition env_summary_down :: env where
  "env_summary_down = env_ok\<lparr>generate_content := (\<lambda>k m c. Inl (Raised (py ''quota exceeded'')))\<rparr>"

definition env_embed_down :: env where
  "env_embed_down = env_ok\<lparr>embed_content := (\<lambda>k m c. Inl (Raised (py ''model not found'')))\<rparr>"

definition env_post_down :: env where
  "env_post_down = env_ok\<lparr>requests_post := (\<lambda>k u p. Inl (Raised (py ''connection refused'')))\<rparr>"

definition env_post_500 :: env where
  "env_post_500 = env_ok
     \<lparr>requests_post := (\<lambda>k u p. Inr \<lparr>status_code = 500, reason = py ''Internal Server Error'',
                                       resp_url = u, resp_text = py ''server error''\<rparr>)\<rparr>"

text \<open>A fresh session: no remote call made, nothing shown, no summary stored.\<close>

definition w0 :: world where
  "w0 = \<lparr>clock = 0, trace = [], summary = None\<rparr>"

text \<open>A session in which an earlier run has stored its summary.\<close>

definition w_old :: world where
  "w_old = \<lparr>clock = 0, trace = [], summary = Some (py ''OLD'')\<rparr>"

section \<open>Facts about the world and the fetcher\<close>

lemma st_fields [simp]:
  "clock (st e w) = clock w" "trace (st e w) = trace w @ [e]" "summary (st e w) = summary w"
  by (simp_all add: st_def)

lemma remote_fields [simp]:
  "clock (remote e w) = Suc (clock w)" "trace (remote e w) = trace w @ [e]"
  "summary (remote e w) = summary w"
  by (simp_all add: remote_def)

lemma fetch_transcript_fst: "fst (fetch_transcript env source w) = fetch_outcome env (clock w) source"
  by (simp add: fetch_outcome_def fetch_transcript_def extract_transcript_def Let_def
           split: sum.splits)

lemma fetch_transcript_clock [simp]: "clock (snd (fetch_transcript env source w)) = Suc (clock w)"
  by (simp add: fetch_transcript_def extract_transcript_def Let_def split: sum.splits)

lemma fetch_transcript_summary [simp]: "summary (snd (fetch_transcript env source w)) = summary w"
  by (simp add: fetch_transcript_def extract_transcript_def Let_def split: sum.splits)

section \<open>The aggregated document\<close>

lemma fetch_loop_document:
  "fst (fetch_loop env n (int k) urls c w) =
     c @ concat (map (\<lambda>(i, url). case fetch_outcome env (clock w + i - k) url of
                        Inr t \<Rightarrow> py ''\<newline>\<newline>=== Transcript '' @ str_int (int i) @ py '' ===\<newline>'' @ t
                      | Inl e \<Rightarrow> [])
                   (enumerate k urls))"
proof (induction urls arbitrary: k c w)
  case Nil
  show ?case by simp
next
  case (Cons u us)
  let ?w1 = "st (St_write (py ''Fetching transcript '' @ str_int (int k) @ py '' of '' @ str_int n)) w"
  obtain r w2 where f: "fetch_transcript env u ?w1 = (r, w2)"
    by (cases "fetch_transcript env u ?w1")
  have r: "r = fetch_outcome env (clock w) u"
    using fetch_transcript_fst [of env u ?w1] f by simp
  have c2: "clock w2 = Suc (clock w)"
    using fetch_transcript_clock [of env u ?w1] f by simp
  have k1: "int k + 1 = int (Suc k)" by simp
  show ?case
  proof (cases r)
    case (Inl e)
    then show ?thesis
      using f r c2 Cons.IH [of "Suc k"] by (simp add: k1 del: of_nat_Suc)
  next
    case (Inr t)
    then show ?thesis
      using f r c2 Cons.IH [of "Suc k"] by (simp add: k1 del: of_nat_Suc)
  qed
qed

lemma fetch_loop_clock:
  "clock (snd (fetch_loop env n idx urls c w)) = clock w + length urls"
proof (induction urls arbitrary: idx c w)
  case Nil
  show ?case by simp
next
  case (Cons u us)
  let ?w1 = "st (St_write (py ''Fetching transcript '' @ str_int idx @ py '' of '' @ str_int n)) w"
  obtain r w2 where f: "fetch_transcript env u ?w1 = (r, w2)"
    by (cases "fetch_transcript env u ?w1")
  have c2: "clock w2 = Suc (clock w)"
    using fetch_transcript_clock [of env u ?w1] f by simp
  show ?case using f c2 Cons.IH by (cases r) simp_all
qed

text \<open>
  C1. The aggregated document is the concatenation, in input order, of one
  contribution per source. The source at the 1-based position \<open>i\<close> is fetched when
  \<open>i - 1\<close> fetches of this run have been made; when that fetch returns the text \<open>t\<close>
  its contribution is a blank line, the line \<open>=== Transcript i ===\<close> and \<open>t\<close>, and when
  it raises its contribution is empty. Every source of the list is fetched, whatever
  the earlier ones did.
\<close>

theorem aggregate_document:
  "fst (aggregate env urls w) =
     concat (map (\<lambda>(i, url). case fetch_outcome env (clock w + i - 1) url of
                      Inr t \<Rightarrow> py ''\<newline>\<newline>=== Transcript '' @ str_int (int i) @ py '' ===\<newline>'' @ t
                    | Inl e \<Rightarrow> [])
                 (enumerate 1 urls))
   \<and> clock (snd (aggregate env urls w)) = clock w + length urls"
  using fetch_loop_document [of env "int (length urls)" 1 urls "[]"]
  by (simp add: aggregate_def fetch_loop_clock)

theorem aggregate_document_witness:
  "fst (aggregate env_ok [py ''http://a/t'', py ''http://b/t'', py ''http://c/t''] w0) =
     py ''\<newline>\<newline>=== Transcript 1 ===\<newline>Hello world\<newline>\<newline>=== Transcript 3 ===\<newline>Hello world''
   \<and> clock (snd (aggregate env_ok [py ''http://a/t'', py ''http://b/t'', py ''http://c/t''] w0)) = 3"
  using aggregate_document [of env_ok "[py ''http://a/t'', py ''http://b/t'', py ''http://c/t'']" w0]
  by (simp add: fetch_outcome_def fetch_transcript_def raise_for_status_def env_ok_def w0_def
        py_def sublist_code str_int_def str_nat.simps)

section \<open>The summary request\<close>

text \<open>
  C2. For every document \<open>d\<close>, the summarizer makes one remote call, to the text
  model, and the text it sends is the prompt header followed by \<open>d\<close>, unchanged.
\<close>

theorem summary_request:
  "trace (snd (generate_summary env d w)) =
     trace w @ [Call_generate_content (py ''gemini-2.0-flash'') [PROMPT_HEADER @ d]]"
  by (simp add: generate_summary_def)

section \<open>Splitting at a marker\<close>

lemma split_go_not_Nil: "split_go sep cur s \<noteq> []"
  by (induction sep cur s rule: split_go.induct) simp_all

lemma split_go_no_sep: "\<not> sublist sep s \<Longrightarrow> split_go sep cur s = [cur @ s]"
proof (induction s arbitrary: cur)
  case Nil
  show ?case by simp
next
  case (Cons c cs)
  from Cons.prems have "\<not> prefix sep (c # cs)" and "\<not> sublist sep cs"
    by (auto simp: sublist_Cons_right)
  with Cons.IH [of "cur @ [c]"] show ?case by simp
qed

lemma split_go_last:
  "sep \<noteq> [] \<Longrightarrow> sublist sep s \<Longrightarrow>
     (\<exists>p. s = p @ sep @ last (split_go sep cur s)) \<and> \<not> sublist sep (last (split_go sep cur s))"
proof (induction sep cur s rule: split_go.induct)
  case (1 sep cur)
  then show ?case by simp
next
  case (2 sep cur c cs)
  show ?case
  proof (cases "prefix sep (c # cs)")
    case True
    let ?rest = "drop (length sep - 1) cs"
    from True obtain zs where zs: "c # cs = sep @ zs" by (auto simp: prefix_def)
    from zs "2.prems"(1) have rest: "?rest = zs"
      by (cases sep) auto
    have l: "last (split_go sep cur (c # cs)) = last (split_go sep [] ?rest)"
      using True by (simp add: split_go_not_Nil)
    show ?thesis
    proof (cases "sublist sep ?rest")
      case True
      with "2.IH"(1) [OF \<open>prefix sep (c # cs)\<close> "2.prems"(1)]
      obtain p where p: "?rest = p @ sep @ last (split_go sep [] ?rest)"
        and n: "\<not> sublist sep (last (split_go sep [] ?rest))" by blast
      have "c # cs = (sep @ p) @ sep @ last (split_go sep [] ?rest)"
        using zs rest p by simp
      then have "\<exists>q. c # cs = q @ sep @ last (split_go sep [] ?rest)" ..
      with n show ?thesis unfolding l by simp
    next
      case False
      then have "split_go sep [] ?rest = [?rest]"
        using split_go_no_sep [of sep ?rest "[]"] by simp
      then have z: "last (split_go sep cur (c # cs)) = zs" using l rest by simp
      have "c # cs = [] @ sep @ zs" using zs by simp
      then have "\<exists>q. c # cs = q @ sep @ zs" ..
      with False rest show ?thesis unfolding z by simp
    qed
  next
    case False
    with "2.prems"(2) have s: "sublist sep cs" by (auto simp: sublist_Cons_right)
    from "2.IH"(2) [OF False "2.prems"(1) s]
    obtain p where p: "cs = p @ sep @ last (split_go sep (cur @ [c]) cs)"
      and n: "\<not> sublist sep (last (split_go sep (cur @ [c]) cs))" by blast
    have l: "last (split_go sep cur (c # cs)) = last (split_go sep (cur @ [c]) cs)"
      using False by simp
    have "c # cs = (c # p) @ sep @ last (split_go sep (cur @ [c]) cs)"
      using p by simp
    then have "\<exists>q. c # cs = q @ sep @ last (split_go sep (cur @ [c]) cs)" ..
    with n show ?thesis unfolding l by simp
  qed
qed

text \<open>
  With a two-character separator whose characters differ, what follows an occurrence
  that has no later occurrence behind it is a suffix of what follows any occurrence.
\<close>

lemma after_last_occurrence:
  assumes eq: "p @ [a, b] @ r = p' @ [a, b] @ r'" and n: "\<not> sublist [a, b] r" and ab: "a \<noteq> b"
  shows "suffix r r'"
proof -
  from eq obtain us where
    "(p = p' @ us \<and> us @ [a, b] @ r = [a, b] @ r') \<or> (p @ us = p' \<and> [a, b] @ r = us @ [a, b] @ r')"
    unfolding append_eq_append_conv2 by blast
  then show ?thesis
  proof
    assume h: "p = p' @ us \<and> us @ [a, b] @ r = [a, b] @ r'"
    show ?thesis
    proof (cases us)
      case Nil
      with h show ?thesis by simp
    next
      case (Cons x xs)
      note c1 = Cons
      show ?thesis
      proof (cases xs)
        case Nil
        with h c1 ab show ?thesis by simp
      next
        case (Cons y ys)
        with h c1 have "r' = ys @ [a, b] @ r" by simp
        then have "r' = (ys @ [a, b]) @ r" by simp
        then show ?thesis unfolding suffix_def ..
      qed
    qed
  next
    assume h: "p @ us = p' \<and> [a, b] @ r = us @ [a, b] @ r'"
    show ?thesis
    proof (cases us)
      case Nil
      with h show ?thesis by simp
    next
      case (Cons x xs)
      note c1 = Cons
      show ?thesis
      proof (cases xs)
        case Nil
        with h c1 ab show ?thesis by simp
      next
        case (Cons y ys)
        with h c1 have "r = ys @ [a, b] @ r'" by simp
        then have "sublist [a, b] r" by (simp only: sublist_appendI)
        with n show ?thesis by simp
      qed
    qed
  qed
qed

lemma py_v_eq: "py ''v='' = [118, 61]"
  by (simp add: py_def)

lemma video_id_no_marker: "\<not> sublist (py ''v='') u \<Longrightarrow> video_id u = u"
  by (simp add: video_id_def py_split_def split_go_no_sep)

lemma video_id_marker:
  assumes "sublist (py ''v='') u"
  shows "(\<exists>p. u = p @ py ''v='' @ video_id u) \<and> \<not> sublist (py ''v='') (video_id u)"
  using split_go_last [of "py ''v=''" u "[]"] assms
  by (simp add: video_id_def py_split_def py_v_eq)

lemma video_id_last:
  assumes "u = p @ py ''v='' @ r"
  shows "suffix (video_id u) r"
proof -
  have s: "sublist (py ''v='') u" using assms by (simp only: sublist_appendI)
  from video_id_marker [OF s] obtain q where q: "u = q @ py ''v='' @ video_id u"
    and n: "\<not> sublist (py ''v='') (video_id u)" by blast
  have "q @ [118, 61] @ video_id u = p @ [118, 61] @ r"
    using q assms by (simp add: py_v_eq)
  then show ?thesis
    using n by (intro after_last_occurrence [of q 118 61 "video_id u" p r]) (simp_all add: py_v_eq)
qed

lemma fetch_transcript_trace:
  "trace (snd (fetch_transcript env source w)) =
     trace w @ [if sublist (py ''youtube.com'') source then Call_get_transcript (video_id source)
                else Call_requests_get source]"
  by (simp add: fetch_transcript_def extract_transcript_def Let_def split: sum.splits)

section \<open>The source fetcher\<close>

text \<open>
  C9. The fetcher makes one remote call. It is the call to the transcript service,
  with the video identifier, exactly when \<open>youtube.com\<close> occurs somewhere in the
  source, and the GET of the source otherwise. The video identifier is what follows
  the last occurrence of \<open>v=\<close>: the URL ends with \<open>v=\<close> and the identifier, the identifier
  holds no \<open>v=\<close>, and it is a suffix of what follows any occurrence of \<open>v=\<close>. For a URL
  without \<open>v=\<close> the identifier is the whole URL.
\<close>

theorem fetch_dispatch:
  "trace (snd (fetch_transcript env source w)) =
     trace w @ [if sublist (py ''youtube.com'') source then Call_get_transcript (video_id source)
                else Call_requests_get source]
   \<and> (if sublist (py ''v='') source
      then (\<exists>p. source = p @ py ''v='' @ video_id source)
           \<and> \<not> sublist (py ''v='') (video_id source)
           \<and> (\<forall>p r. source = p @ py ''v='' @ r \<longrightarrow> suffix (video_id source) r)
      else video_id source = source)"
  using video_id_marker [of source] video_id_no_marker [of source] video_id_last [of source]
  by (simp add: fetch_transcript_trace)

theorem fetch_dispatch_witness:
  "trace (snd (fetch_transcript env_ok (py ''https://www.youtube.com/watch?v=abc'') w0)) =
     [Call_get_transcript (py ''abc'')]
   \<and> video_id (py ''https://www.youtube.com/watch?v=abc'') = py ''abc''
   \<and> suffix (video_id (py ''https://www.youtube.com/watch?v=abc'')) (py ''abc'')"
  using fetch_dispatch [of env_ok "py ''https://www.youtube.com/watch?v=abc''" w0]
  by (simp add: video_id_def py_split_def py_def w0_def sublist_code)

section \<open>The chatbot prompt\<close>

text \<open>
  C7. For every summary \<open>s\<close> and question \<open>q\<close>, empty or not, whatever their
  characters, the chatbot makes one call to the text model with one prompt: the
  instruction, \<open>s\<close> unchanged, the heading of the question, \<open>q\<close> unchanged, and the
  closing line. So \<open>s\<close> stands before \<open>q\<close>.
\<close>

theorem chatbot_request:
  "trace (snd (ask_chatbot env s q w)) =
     trace w @ [Call_generate_content (py ''gemini-2.0-flash'')
        [py ''You are an assistant. Based on the following video summary, answer the user''
         @ [0x2019] @ py ''s question clearly and briefly.\<newline>\<newline>Video Summary:\<newline>''
         @ s @ py ''\<newline>\<newline>User Question:\<newline>'' @ q @ py ''\<newline>\<newline>Answer:'']]"
  by (simp add: ask_chatbot_def chatbot_prompt_def)

section \<open>The Teams payload\<close>

text \<open>
  C8. For every summary \<open>S\<close> the body posted to the webhook is a JSON object with the
  single field \<open>text\<close>, whose value is the markdown header followed by \<open>S\<close>; so \<open>S\<close> is a
  contiguous part of it. The post is the only remote call of the notifier, which
  after it reports a status other than 200.
\<close>

theorem teams_post_body:
  "trace (snd (post_to_teams env S w)) =
     trace w @ [Call_requests_post (TEAMS_WEBHOOK_URL env)
                  [(py ''text'', py ''**'' @ [0x1F4FD, 0xFE0F] @ py '' Combined Video Summary**\<newline>\<newline>'' @ S)]]
       @ (case requests_post env (clock w) (TEAMS_WEBHOOK_URL env) (teams_payload S) of
            Inl e \<Rightarrow> []
          | Inr resp \<Rightarrow> if status_code resp \<noteq> 200
                        then [St_error (py ''Teams webhook failed: '' @ resp_text resp)] else [])
   \<and> sublist S (py ''**'' @ [0x1F4FD, 0xFE0F] @ py '' Combined Video Summary**\<newline>\<newline>'' @ S)"
proof
  show "trace (snd (post_to_teams env S w)) =
     trace w @ [Call_requests_post (TEAMS_WEBHOOK_URL env)
                  [(py ''text'', py ''**'' @ [0x1F4FD, 0xFE0F] @ py '' Combined Video Summary**\<newline>\<newline>'' @ S)]]
       @ (case requests_post env (clock w) (TEAMS_WEBHOOK_URL env) (teams_payload S) of
            Inl e \<Rightarrow> []
          | Inr resp \<Rightarrow> if status_code resp \<noteq> 200
                        then [St_error (py ''Teams webhook failed: '' @ resp_text resp)] else [])"
    by (simp add: post_to_teams_def teams_payload_def Let_def split: sum.splits)
  have "sublist S ((py ''**'' @ [0x1F4FD, 0xFE0F] @ py '' Combined Video Summary**\<newline>\<newline>'') @ S @ [])"
    by (rule sublist_appendI)
  then show "sublist S (py ''**'' @ [0x1F4FD, 0xFE0F] @ py '' Combined Video Summary**\<newline>\<newline>'' @ S)"
    by simp
qed

section \<open>The generic fetch\<close>

text \<open>
  C5, as the code has it. A source without \<open>youtube.com\<close> is fetched by one GET. When
  the GET raises, the fetch fails with that exception. When it returns a response,
  the fetch fails with HTTPError exactly for a status from 400 to 599, and for every
  other status, 2xx or not, it returns the body of the response as text.
\<close>

theorem generic_fetch:
  assumes "\<not> sublist (py ''youtube.com'') source"
  shows "trace (snd (fetch_transcript env source w)) = trace w @ [Call_requests_get source]
    \<and> (case requests_get env (clock w) source of
         Inl e \<Rightarrow> fst (fetch_transcript env source w) = Inl e
       | Inr resp \<Rightarrow>
           if 400 \<le> status_code resp \<and> status_code resp < 600
           then \<exists>m. fst (fetch_transcript env source w) = Inl (HTTPError m)
           else fst (fetch_transcript env source w) = Inr (resp_text resp))"
  using assms
  by (simp add: fetch_transcript_def raise_for_status_def Let_def split: sum.splits)

theorem generic_fetch_witness:
  "fst (fetch_transcript env_404 (py ''http://a/t'') w0) =
     Inl (HTTPError (py ''404 Client Error: Not Found for url: http://a/t''))
   \<and> fst (fetch_transcript env_300 (py ''http://a/t'') w0) = Inr (py ''pick one'')
   \<and> fst (fetch_transcript env_ok (py ''http://a/t'') w0) = Inr (py ''Hello world'')
   \<and> fst (fetch_transcript env_ok (py ''http://b/t'') w0) = Inl (Raised (py ''no route to host''))
   \<and> trace (snd (fetch_transcript env_ok (py ''http://a/t'') w0)) = [Call_requests_get (py ''http://a/t'')]"
proof -
  have a: "\<not> sublist (py ''youtube.com'') (py ''http://a/t'')"
    by (simp add: py_def sublist_code)
  have b: "\<not> sublist (py ''youtube.com'') (py ''http://b/t'')"
    by (simp add: py_def sublist_code)
  show ?thesis
    using generic_fetch [OF a, of env_404 w0] generic_fetch [OF a, of env_300 w0]
      generic_fetch [OF a, of env_ok w0] generic_fetch [OF b, of env_ok w0]
    by (simp add: fetch_transcript_def raise_for_status_def env_404_def env_300_def env_ok_def
          w0_def py_def sublist_code str_int_def str_nat.simps)
qed

text \<open>
  The statement of C5 with "exactly when the status is 2xx" fails: a response with
  status 300 is not an error for \<open>raise_for_status\<close>, and its body is returned.
\<close>

theorem generic_fetch_counterexample:
  "\<not> sublist (py ''youtube.com'') (py ''http://a/t'')
   \<and> requests_get env_300 (clock w0) (py ''http://a/t'') =
       Inr \<lparr>status_code = 300, reason = py ''Multiple Choices'', resp_url = py ''http://a/t'',
            resp_text = py ''pick one''\<rparr>
   \<and> \<not> (200 \<le> (300::int) \<and> (300::int) < 300)
   \<and> fst (fetch_transcript env_300 (py ''http://a/t'') w0) = Inr (py ''pick one'')"
  by (simp add: fetch_transcript_def raise_for_status_def env_300_def env_ok_def w0_def py_def
        sublist_code)

section \<open>The run of "Generate Combined Summary"\<close>

lemma fetch_loop_summary:
  "summary (snd (fetch_loop env n idx urls c w)) = summary w"
proof (induction urls arbitrary: idx c w)
  case Nil
  show ?case by simp
next
  case (Cons u us)
  let ?w1 = "st (St_write (py ''Fetching transcript '' @ str_int idx @ py '' of '' @ str_int n)) w"
  obtain r w2 where f: "fetch_transcript env u ?w1 = (r, w2)"
    by (cases "fetch_transcript env u ?w1")
  have s2: "summary w2 = summary w"
    using fetch_transcript_summary [of env u ?w1] f by simp
  show ?case using f s2 Cons.IH by (cases r) simp_all
qed

lemma aggregate_summary: "summary (snd (aggregate env urls w)) = summary w"
  by (simp add: aggregate_def fetch_loop_summary)

lemma generate_summary_fields:
  "clock (snd (generate_summary env d w)) = Suc (clock w)"
  "summary (snd (generate_summary env d w)) = summary w"
  by (simp_all add: generate_summary_def)

lemma show_summary_fields:
  "clock (show_summary s w) = clock w"
  "summary (show_summary s w) = summary w"
  "trace (show_summary s w) =
     trace w @ [St_subheader (py ''Combined Detailed Notes''), St_write s,
                St_success (py ''Summary generated successfully!'')]"
  by (simp_all add: show_summary_def)

lemma post_step_summary: "summary (snd (post_step env cb s w)) = summary w"
  by (simp add: post_step_def post_to_teams_def Let_def split: sum.splits)

lemma post_step_trace: "\<exists>evs. trace (snd (post_step env cb s w)) = trace w @ evs"
  by (simp add: post_step_def post_to_teams_def Let_def split: sum.splits)

lemma summary_try_trace:
  "\<exists>evs. trace (snd (summary_try env d cb w)) =
     trace w @ [Call_generate_content (py ''gemini-2.0-flash'') [PROMPT_HEADER @ d]] @ evs"
proof (cases "generate_content env (clock w) (py ''gemini-2.0-flash'') [PROMPT_HEADER @ d]")
  case (Inl e)
  then show ?thesis by (simp add: summary_try_def generate_summary_def)
next
  case (Inr s)
  let ?w1 = "show_summary s (remote (Call_generate_content (py ''gemini-2.0-flash'') [PROMPT_HEADER @ d]) w)"
  obtain r w3 where p: "post_step env cb s ?w1 = (r, w3)" by (cases "post_step env cb s ?w1")
  from post_step_trace [of env cb s ?w1] p obtain evs where evs: "trace w3 = trace ?w1 @ evs" by auto
  show ?thesis
    using Inr p evs
    by (cases r)
       (simp_all add: summary_try_def generate_summary_def generate_embedding_def show_summary_def
          split: sum.splits)
qed

lemma summarize_section_trace:
  "\<exists>evs. trace (summarize_section env d cb w) =
     trace w @ [St_spinner (py ''Generating combined summary...''),
                Call_generate_content (py ''gemini-2.0-flash'') [PROMPT_HEADER @ d]] @ evs"
proof -
  let ?w = "st (St_spinner (py ''Generating combined summary...'')) w"
  obtain r w' where t: "summary_try env d cb ?w = (r, w')" by (cases "summary_try env d cb ?w")
  from summary_try_trace [of env d cb ?w] t obtain evs where
    "trace w' = trace ?w @ [Call_generate_content (py ''gemini-2.0-flash'') [PROMPT_HEADER @ d]] @ evs"
    by auto
  then show ?thesis using t by (cases r) (simp_all add: summarize_section_def)
qed

lemma summarize_section_summary_fails:
  assumes "generate_content env (clock w) (py ''gemini-2.0-flash'') [PROMPT_HEADER @ d] = Inl e"
  shows "summarize_section env d cb w =
     w\<lparr>clock := Suc (clock w),
       trace := trace w @ [St_spinner (py ''Generating combined summary...''),
                           Call_generate_content (py ''gemini-2.0-flash'') [PROMPT_HEADER @ d],
                           St_error (py ''Error generating summary: '' @ str_exn e)]\<rparr>"
  using assms
  by (simp add: summarize_section_def summary_try_def generate_summary_def st_def remote_def)

text \<open>Evaluating a run in a concrete world.\<close>

lemmas run_defs =
  generate_clicked_def summarize_section_def summary_try_def post_step_def show_summary_def
  post_to_teams_def teams_payload_def generate_summary_def generate_embedding_def
  aggregate_def parse_urls_def py_split_def py_strip_def py_isspace_def
  fetch_transcript_def raise_for_status_def st_def remote_def w0_def
  sublist_code str_int_def str_nat.simps

lemma aggregate_one_ok:
  "requests_get env = requests_get env_ok \<Longrightarrow>
   aggregate env (parse_urls (py ''http://a/t'')) w0 =
     (py ''\<newline>\<newline>=== Transcript 1 ===\<newline>Hello world'',
      \<lparr>clock = 1,
       trace = [St_spinner (py ''Fetching transcripts for 1 video(s)...''),
                St_write (py ''Fetching transcript 1 of 1''),
                Call_requests_get (py ''http://a/t'')],
       summary = None\<rparr>)"
  by (simp add: aggregate_def parse_urls_def py_split_def py_strip_def py_isspace_def py_def
        fetch_transcript_def raise_for_status_def env_ok_def w0_def st_def remote_def
        sublist_code str_int_def str_nat.simps)

subsection \<open>The summarization call fails\<close>

text \<open>
  C6. When the call to the text model raises, the run ends with the error shown to
  the user: after the fetches there is the spinner, the call and the error message,
  and nothing else. No post to the webhook and no embedding call is made, and the
  stored summary is the one from before the run.
\<close>

theorem summarization_failure:
  assumes "urls_input \<noteq> []"
    and "aggregate env (parse_urls urls_input) w = (d, w1)"
    and "generate_content env (clock w1) (py ''gemini-2.0-flash'') [PROMPT_HEADER @ d] = Inl e"
  shows "generate_clicked env urls_input cb w =
     w1\<lparr>clock := Suc (clock w1),
        trace := trace w1 @ [St_spinner (py ''Generating combined summary...''),
                            Call_generate_content (py ''gemini-2.0-flash'') [PROMPT_HEADER @ d],
                            St_error (py ''Error generating summary: '' @ str_exn e)]\<rparr>
   \<and> summary (generate_clicked env urls_input cb w) = summary w"
proof -
  have s: "summary w1 = summary w"
    using aggregate_summary [of env "parse_urls urls_input" w] assms(2) by simp
  show ?thesis
    using assms s by (simp add: generate_clicked_def summarize_section_summary_fails)
qed

theorem summarization_failure_witness:
  "generate_clicked env_summary_down (py ''http://a/t'') True w0 =
     \<lparr>clock = 2,
      trace = [St_spinner (py ''Fetching transcripts for 1 video(s)...''),
               St_write (py ''Fetching transcript 1 of 1''),
               Call_requests_get (py ''http://a/t''),
               St_spinner (py ''Generating combined summary...''),
               Call_generate_content (py ''gemini-2.0-flash'')
                 [PROMPT_HEADER @ py ''\<newline>\<newline>=== Transcript 1 ===\<newline>Hello world''],
               St_error (py ''Error generating summary: quota exceeded'')],
      summary = None\<rparr>"
proof -
  have a: "aggregate env_summary_down (parse_urls (py ''http://a/t'')) w0 =
     (py ''\<newline>\<newline>=== Transcript 1 ===\<newline>Hello world'',
      \<lparr>clock = 1,
       trace = [St_spinner (py ''Fetching transcripts for 1 video(s)...''),
                St_write (py ''Fetching transcript 1 of 1''),
                Call_requests_get (py ''http://a/t'')],
       summary = None\<rparr>)"
    by (rule aggregate_one_ok) (simp add: env_summary_down_def)
  have n: "py ''http://a/t'' \<noteq> []" by (simp add: py_def)
  have g: "generate_content env_summary_down 1 (py ''gemini-2.0-flash'')
             [PROMPT_HEADER @ py ''\<newline>\<newline>=== Transcript 1 ===\<newline>Hello world'']
           = Inl (Raised (py ''quota exceeded''))"
    by (simp add: env_summary_down_def)
  show ?thesis
    using summarization_failure [OF n a, of "Raised (py ''quota exceeded'')" True] g
    by (simp add: py_def)
qed

subsection \<open>Every fetch fails\<close>

lemma all_fail_document:
  assumes "\<forall>(i, url) \<in> set (enumerate 1 urls). \<exists>e. fetch_outcome env (clock w + i - 1) url = Inl e"
  shows "fst (aggregate env urls w) = []"
proof -
  have "fst (aggregate env urls w) =
     concat (map (\<lambda>(i, url). case fetch_outcome env (clock w + i - 1) url of
                      Inr t \<Rightarrow> py ''\<newline>\<newline>=== Transcript '' @ str_int (int i) @ py '' ===\<newline>'' @ t
                    | Inl e \<Rightarrow> [])
                 (enumerate 1 urls))"
    using fetch_loop_document [of env "int (length urls)" 1 urls "[]"]
    by (simp add: aggregate_def)
  also have "\<dots> = []"
    using assms by (fastforce split: sum.splits)
  finally show ?thesis .
qed

text \<open>
  C10. When the fetch of every source of the run raises, the aggregated document is
  empty, and the run goes on to the summarization: the text model is called with the
  prompt header alone.
\<close>

theorem all_fetches_fail:
  assumes "urls_input \<noteq> []"
    and "\<forall>(i, url) \<in> set (enumerate 1 (parse_urls urls_input)).
           \<exists>e. fetch_outcome env (clock w + i - 1) url = Inl e"
  shows "fst (aggregate env (parse_urls urls_input) w) = []
    \<and> (\<exists>evs. trace (generate_clicked env urls_input cb w) =
          trace (snd (aggregate env (parse_urls urls_input) w))
          @ [St_spinner (py ''Generating combined summary...''),
             Call_generate_content (py ''gemini-2.0-flash'') [PROMPT_HEADER]] @ evs)"
proof -
  have d: "fst (aggregate env (parse_urls urls_input) w) = []"
    using assms(2) by (rule all_fail_document)
  obtain c w1 where a: "aggregate env (parse_urls urls_input) w = (c, w1)"
    by (cases "aggregate env (parse_urls urls_input) w")
  with d have c: "c = []" by simp
  show ?thesis
    using assms(1) a c d summarize_section_trace [of env "[]" cb w1]
    by (simp add: generate_clicked_def)
qed

theorem all_fetches_fail_witness:
  "fst (aggregate env_all_down (parse_urls (py ''http://a/t,http://b/t'')) w0) = []
   \<and> trace (generate_clicked env_all_down (py ''http://a/t,http://b/t'') False w0) =
       [St_spinner (py ''Fetching transcripts for 2 video(s)...''),
        St_write (py ''Fetching transcript 1 of 2''),
        Call_requests_get (py ''http://a/t''),
        St_error (py ''Error fetching transcript for http://a/t: timed out''),
        St_write (py ''Fetching transcript 2 of 2''),
        Call_requests_get (py ''http://b/t''),
        St_error (py ''Error fetching transcript for http://b/t: timed out''),
        St_spinner (py ''Generating combined summary...''),
        Call_generate_content (py ''gemini-2.0-flash'') [PROMPT_HEADER],
        St_subheader (py ''Combined Detailed Notes''),
        St_write (py ''S''),
        St_success (py ''Summary generated successfully!''),
        Call_embed_content (py ''gemini-embedding-exp-03-07'') [],
        St_write_embedding (py ''Embedding (first 5 dims):'') []]"
proof -
  have n: "py ''http://a/t,http://b/t'' \<noteq> []" by (simp add: py_def)
  have p: "parse_urls (py ''http://a/t,http://b/t'') = [py ''http://a/t'', py ''http://b/t'']"
    by (simp add: parse_urls_def py_split_def py_strip_def py_isspace_def py_def)
  have f: "\<forall>(i, url) \<in> set (enumerate 1 (parse_urls (py ''http://a/t,http://b/t''))).
           \<exists>e. fetch_outcome env_all_down (clock w0 + i - 1) url = Inl e"
    unfolding p
    by (simp add: fetch_outcome_def fetch_transcript_def env_all_down_def env_ok_def py_def sublist_code)
  have t: "trace (generate_clicked env_all_down (py ''http://a/t,http://b/t'') False w0) =
       [St_spinner (py ''Fetching transcripts for 2 video(s)...''),
        St_write (py ''Fetching transcript 1 of 2''),
        Call_requests_get (py ''http://a/t''),
        St_error (py ''Error fetching transcript for http://a/t: timed out''),
        St_write (py ''Fetching transcript 2 of 2''),
        Call_requests_get (py ''http://b/t''),
        St_error (py ''Error fetching transcript for http://b/t: timed out''),
        St_spinner (py ''Generating combined summary...''),
        Call_generate_content (py ''gemini-2.0-flash'') [PROMPT_HEADER],
        St_subheader (py ''Combined Detailed Notes''),
        St_write (py ''S''),
        St_success (py ''Summary generated successfully!''),
        Call_embed_content (py ''gemini-embedding-exp-03-07'') [],
        St_write_embedding (py ''Embedding (first 5 dims):'') []]"
    by (simp add: run_defs env_all_down_def env_ok_def py_def)
  show ?thesis
    using all_fetches_fail [OF n f, of False] t by simp
qed

subsection \<open>The embedding call fails\<close>

text \<open>Two runs in a fresh session: with the embedding service down, and with it up.\<close>

lemma run_embed_down:
  "generate_clicked env_embed_down (py ''http://a/t'') True w0 =
     \<lparr>clock = 4,
      trace = [St_spinner (py ''Fetching transcripts for 1 video(s)...''),
               St_write (py ''Fetching transcript 1 of 1''),
               Call_requests_get (py ''http://a/t''),
               St_spinner (py ''Generating combined summary...''),
               Call_generate_content (py ''gemini-2.0-flash'')
                 [PROMPT_HEADER @ py ''\<newline>\<newline>=== Transcript 1 ===\<newline>Hello world''],
               St_subheader (py ''Combined Detailed Notes''),
               St_write (py ''S''),
               St_success (py ''Summary generated successfully!''),
               Call_requests_post (py ''https://hook'')
                 [(py ''text'', py ''**'' @ [0x1F4FD, 0xFE0F] @ py '' Combined Video Summary**\<newline>\<newline>S'')],
               St_success (py ''Summary posted to Microsoft Teams!''),
               Call_embed_content (py ''gemini-embedding-exp-03-07'')
                 (py ''\<newline>\<newline>=== Transcript 1 ===\<newline>Hello world''),
               St_error (py ''Error generating summary: model not found'')],
      summary = None\<rparr>"
  by (simp add: run_defs env_embed_down_def env_ok_def py_def)

lemma run_ok:
  "generate_clicked env_ok (py ''http://a/t'') True w0 =
     \<lparr>clock = 4,
      trace = [St_spinner (py ''Fetching transcripts for 1 video(s)...''),
               St_write (py ''Fetching transcript 1 of 1''),
               Call_requests_get (py ''http://a/t''),
               St_spinner (py ''Generating combined summary...''),
               Call_generate_content (py ''gemini-2.0-flash'')
                 [PROMPT_HEADER @ py ''\<newline>\<newline>=== Transcript 1 ===\<newline>Hello world''],
               St_subheader (py ''Combined Detailed Notes''),
               St_write (py ''S''),
               St_success (py ''Summary generated successfully!''),
               Call_requests_post (py ''https://hook'')
                 [(py ''text'', py ''**'' @ [0x1F4FD, 0xFE0F] @ py '' Combined Video Summary**\<newline>\<newline>S'')],
               St_success (py ''Summary posted to Microsoft Teams!''),
               Call_embed_content (py ''gemini-embedding-exp-03-07'')
                 (py ''\<newline>\<newline>=== Transcript 1 ===\<newline>Hello world''),
               St_write_embedding (py ''Embedding (first 5 dims):'') []],
      summary = Some (py ''S'')\<rparr>"
  by (simp add: run_defs env_ok_def py_def)

text \<open>
  C3 at a world whose embedding service fails. The summary "S" has been generated,
  displayed and posted; then \<open>generate_embedding\<close> raises and the handler of line 138
  catches it: the run ends with "Error generating summary", and the assignment of
  line 137 is not reached. In a fresh session nothing is stored, where the same run
  with a working embedding service stores "S", and the chatbot part of the script
  does nothing. In a session with an older summary that one stays stored, although
  "S" is the summary on display.
\<close>

theorem embedding_failure_run:
  "generate_clicked env_embed_down (py ''http://a/t'') True w0 =
     \<lparr>clock = 4,
      trace = [St_spinner (py ''Fetching transcripts for 1 video(s)...''),
               St_write (py ''Fetching transcript 1 of 1''),
               Call_requests_get (py ''http://a/t''),
               St_spinner (py ''Generating combined summary...''),
               Call_generate_content (py ''gemini-2.0-flash'')
                 [PROMPT_HEADER @ py ''\<newline>\<newline>=== Transcript 1 ===\<newline>Hello world''],
               St_subheader (py ''Combined Detailed Notes''),
               St_write (py ''S''),
               St_success (py ''Summary generated successfully!''),
               Call_requests_post (py ''https://hook'')
                 [(py ''text'', py ''**'' @ [0x1F4FD, 0xFE0F] @ py '' Combined Video Summary**\<newline>\<newline>S'')],
               St_success (py ''Summary posted to Microsoft Teams!''),
               Call_embed_content (py ''gemini-embedding-exp-03-07'')
                 (py ''\<newline>\<newline>=== Transcript 1 ===\<newline>Hello world''),
               St_error (py ''Error generating summary: model not found'')],
      summary = None\<rparr>
   \<and> summary (generate_clicked env_ok (py ''http://a/t'') True w0) = Some (py ''S'')
   \<and> chatbot_section env_embed_down True (py ''What was said?'') True
         (generate_clicked env_embed_down (py ''http://a/t'') True w0)
       = generate_clicked env_embed_down (py ''http://a/t'') True w0
   \<and> summary (generate_clicked env_embed_down (py ''http://a/t'') True w_old) = Some (py ''OLD'')"
proof -
  have old: "summary (generate_clicked env_embed_down (py ''http://a/t'') True w_old) = Some (py ''OLD'')"
    by (simp add: run_defs w_old_def env_embed_down_def env_ok_def py_def)
  show ?thesis
    using old by (simp add: run_embed_down run_ok chatbot_section_def)
qed

text \<open>
  The same for every world in which the embedding call raises after the summarizer
  has returned and the notification step has ended: the error is shown after
  everything shown and sent before, and the stored summary is the one from before
  the run.
\<close>

lemma embed_raises_aborts:
  assumes "urls_input \<noteq> []"
    and "aggregate env (parse_urls urls_input) w = (d, w1)"
    and "generate_summary env d (st (St_spinner (py ''Generating combined summary...'')) w1) = (Inr s, w2)"
    and "post_step env cb s (show_summary s w2) = (Inr (), w3)"
    and "embed_content env (clock w3) (py ''gemini-embedding-exp-03-07'') d = Inl e"
  shows "generate_clicked env urls_input cb w =
           w3\<lparr>clock := Suc (clock w3),
              trace := trace w3 @ [Call_embed_content (py ''gemini-embedding-exp-03-07'') d,
                                  St_error (py ''Error generating summary: '' @ str_exn e)]\<rparr>
     \<and> (\<exists>evs. trace w3 = trace w2 @ [St_subheader (py ''Combined Detailed Notes''), St_write s,
                                     St_success (py ''Summary generated successfully!'')] @ evs)
     \<and> summary (generate_clicked env urls_input cb w) = summary w"
proof -
  have r: "generate_clicked env urls_input cb w =
           w3\<lparr>clock := Suc (clock w3),
              trace := trace w3 @ [Call_embed_content (py ''gemini-embedding-exp-03-07'') d,
                                  St_error (py ''Error generating summary: '' @ str_exn e)]\<rparr>"
    using assms
    by (simp add: generate_clicked_def summarize_section_def summary_try_def
          generate_embedding_def st_def remote_def)
  have s1: "summary w1 = summary w"
    using aggregate_summary [of env "parse_urls urls_input" w] assms(2) by simp
  have s2: "summary w2 = summary w1"
    using generate_summary_fields(2) [of env d "st (St_spinner (py ''Generating combined summary...'')) w1"]
      assms(3) by simp
  have s3: "summary w3 = summary w2"
    using post_step_summary [of env cb s "show_summary s w2"] assms(4)
    by (simp add: show_summary_fields)
  from post_step_trace [of env cb s "show_summary s w2"] assms(4)
  have t: "\<exists>evs. trace w3 = trace w2 @ [St_subheader (py ''Combined Detailed Notes''), St_write s,
                                     St_success (py ''Summary generated successfully!'')] @ evs"
    by (simp add: show_summary_fields)
  show ?thesis using r t s1 s2 s3 by simp
qed

subsection \<open>The post to Teams fails\<close>

text \<open>
  C4 at a world whose webhook cannot be reached. \<open>requests.post\<close> raises, the
  exception leaves \<open>post_to_teams\<close> and is caught by the handler of line 138: the run
  ends with "Error generating summary", the embedding call is not made and the
  summary is not stored.
\<close>

theorem teams_transport_failure:
  "generate_clicked env_post_down (py ''http://a/t'') True w0 =
     \<lparr>clock = 3,
      trace = [St_spinner (py ''Fetching transcripts for 1 video(s)...''),
               St_write (py ''Fetching transcript 1 of 1''),
               Call_requests_get (py ''http://a/t''),
               St_spinner (py ''Generating combined summary...''),
               Call_generate_content (py ''gemini-2.0-flash'')
                 [PROMPT_HEADER @ py ''\<newline>\<newline>=== Transcript 1 ===\<newline>Hello world''],
               St_subheader (py ''Combined Detailed Notes''),
               St_write (py ''S''),
               St_success (py ''Summary generated successfully!''),
               Call_requests_post (py ''https://hook'')
                 [(py ''text'', py ''**'' @ [0x1F4FD, 0xFE0F] @ py '' Combined Video Summary**\<newline>\<newline>S'')],
               St_error (py ''Error generating summary: connection refused'')],
      summary = None\<rparr>"
  by (simp add: run_defs env_post_down_def env_ok_def py_def)

text \<open>
  The same for every world in which the post raises, and, beside it, the run in which
  the webhook answers with status 500: there the error is shown and the run goes on to
  the embedding and stores the summary.
\<close>

lemma post_raises_aborts:
  assumes "urls_input \<noteq> []"
    and "aggregate env (parse_urls urls_input) w = (d, w1)"
    and "generate_summary env d (st (St_spinner (py ''Generating combined summary...'')) w1) = (Inr s, w2)"
    and "requests_post env (clock w2) (TEAMS_WEBHOOK_URL env) (teams_payload s) = Inl e"
  shows "generate_clicked env urls_input True w =
           w2\<lparr>clock := Suc (clock w2),
              trace := trace w2 @ [St_subheader (py ''Combined Detailed Notes''), St_write s,
                                  St_success (py ''Summary generated successfully!''),
                                  Call_requests_post (TEAMS_WEBHOOK_URL env) (teams_payload s),
                                  St_error (py ''Error generating summary: '' @ str_exn e)]\<rparr>"
  using assms
  by (simp add: generate_clicked_def summarize_section_def summary_try_def post_step_def
        post_to_teams_def show_summary_def st_def remote_def)

lemma teams_status_500_run:
  "generate_clicked env_post_500 (py ''http://a/t'') True w0 =
     \<lparr>clock = 4,
      trace = [St_spinner (py ''Fetching transcripts for 1 video(s)...''),
               St_write (py ''Fetching transcript 1 of 1''),
               Call_requests_get (py ''http://a/t''),
               St_spinner (py ''Generating combined summary...''),
               Call_generate_content (py ''gemini-2.0-flash'')
                 [PROMPT_HEADER @ py ''\<newline>\<newline>=== Transcript 1 ===\<newline>Hello world''],
               St_subheader (py ''Combined Detailed Notes''),
               St_write (py ''S''),
               St_success (py ''Summary generated successfully!''),
               Call_requests_post (py ''https://hook'')
                 [(py ''text'', py ''**'' @ [0x1F4FD, 0xFE0F] @ py '' Combined Video Summary**\<newline>\<newline>S'')],
               St_error (py ''Teams webhook failed: server error''),
               St_success (py ''Summary posted to Microsoft Teams!''),
               Call_embed_content (py ''gemini-embedding-exp-03-07'')
                 (py ''\<newline>\<newline>=== Transcript 1 ===\<newline>Hello world''),
               St_write_embedding (py ''Embedding (first 5 dims):'') []],
      summary = Some (py ''S'')\<rparr>"
  by (simp add: run_defs env_post_500_def env_ok_def py_def)

end
